theory Spec2Isabelle
  imports Main "HOL-Library.Word"
begin

section \<open>Configuration (monitor\_setup.go, lines 22-30)\<close>

text \<open>Durations are counted in nanoseconds, as Go's \<open>time.Duration\<close> does.\<close>

definition Second :: nat where
  "Second = 1000000000"

definition CONNECTION_TIMEOUT :: nat where
  "CONNECTION_TIMEOUT = 30 * Second"

definition NodeWSS :: string where
  "NodeWSS = ''ws://127.0.0.1:8546''"

section \<open>Data carried by the two feeds\<close>

text \<open>
  A \<open>common.Hash\<close> is a byte string; \<open>Hex\<close> is the client library's rendering of it,
  the prefix \<open>0x\<close> followed by two lower-case hexadecimal digits per byte.
  Of a block header the program reads three things only: \<open>header.Number\<close>,
  \<open>header.Hash()\<close> and \<open>header.Time\<close> (an unsigned 64-bit integer).
\<close>

type_synonym Hash = "8 word list"

definition hex_digit :: "nat \<Rightarrow> char" where
  "hex_digit n = ''0123456789abcdef'' ! n"

definition hex_byte :: "8 word \<Rightarrow> string" where
  "hex_byte b = [hex_digit (unat b div 16), hex_digit (unat b mod 16)]"

definition Hex :: "Hash \<Rightarrow> string" where
  "Hex h = ''0x'' @ concat (map hex_byte h)"

record Header =
  Number :: int
  HeaderHash :: Hash
  Time :: "64 word"

text \<open>A Go \<open>error\<close> value is represented by its message.\<close>

type_synonym err = string

section \<open>The outside world\<close>

text \<open>
  What one pass through the \<open>select\<close> statement (lines 92-124) receives: a header on
  \<open>newHeadChan\<close>, a hash on \<open>pendingTxChan\<close>, an error on \<open>headSub.Err()\<close>, an error on
  \<open>txSub.Err()\<close>, or a signal on \<open>sigChan\<close>. Which of several ready sources is taken is
  the runtime's choice; here it is part of the input.
\<close>

datatype event =
    NewHead Header
  | PendingHash Hash
  | HeadSubErr err
  | TxSubErr err
  | Interrupt

text \<open>
  The world fixes what the external calls answer: the error (if any) of \<open>rpc.DialContext\<close>,
  of \<open>SubscribeNewHead\<close> and of \<open>SubscribePendingTransactions\<close>, and the events the loop
  receives, one per iteration; when that list is used up nothing further ever arrives.

  \<open>txSub\<close> is a pointer \<open>*rpc.ClientSubscription\<close>, and the program may call its method
  \<open>Err()\<close> through a nil pointer (line 111). What that call does is the library's affair,
  so it is a field of the world: \<open>nil_Err_faults\<close> says that \<open>Err()\<close> reads its receiver
  and so stops with a nil-pointer dereference. go-ethereum's \<open>Err\<close> returns a field of the
  receiver, which is the case \<open>True\<close>.
\<close>

record world =
  dial_err :: "err option"
  head_sub_err :: "err option"
  tx_sub_err :: "err option"
  nil_Err_faults :: bool
  incoming :: "event list"

section \<open>What the program does\<close>

datatype ctx = Background | WithTimeout ctx nat

datatype sub_id = HeadSub | TxSub

text \<open>The lines the program writes, by the statement that writes them.\<close>

datatype message =
    ConnectStart
  | ConnectFailed err
  | Connected
  | HeadSubscribeFailed err
  | ListeningNewHeads
  | PendingSubscribeFailed err
  | ListeningPending
  | MonitorStarted
  | NewBlock int string "64 word"
  | PendingTx string
  | HeadSubAborted err
  | TxSubAborted err
  | Stopping

text \<open>
  The calls the program makes on the outside, in program order. \<open>CallErr s\<close> is the call
  \<open>s.Err()\<close> that yields the channel of a receive case; \<open>CallErr None\<close> is that call
  through a nil handle. \<open>LogFatalf\<close> writes its line and then calls \<open>os.Exit(1)\<close>.
\<close>

datatype action =
    LogPrintln message
  | LogPrintf message
  | LogFatalf message
  | FmtPrint message
  | DialContext ctx string
  | SubscribeNewHead ctx
  | SubscribePendingTransactions ctx
  | SignalNotify nat
  | CallErr "sub_id option"
  | Unsubscribe sub_id
  | Close
  | Cancel

text \<open>
  How a run ends: \<open>main\<close> returns, the process exits through \<open>os.Exit\<close> with a code,
  a run-time panic unwinds \<open>main\<close>, or the loop is left waiting in \<open>select\<close> for an
  event that never comes.
\<close>

datatype outcome = Returned | Exited nat | Panicked | Waiting

fun exit_code :: "outcome \<Rightarrow> nat option" where
  "exit_code Returned = Some 0"
| "exit_code (Exited c) = Some c"
| "exit_code Panicked = Some 2"
| "exit_code Waiting = None"

text \<open>
  Deferred calls run when \<open>main\<close> returns and when a panic unwinds it; \<open>os.Exit\<close> ends
  the process without running them.
\<close>

definition run_deferred :: "action list \<Rightarrow> action list \<times> outcome \<Rightarrow> action list \<times> outcome" where
  "run_deferred ds r =
     (case snd r of
        Returned \<Rightarrow> (fst r @ ds, Returned)
      | Panicked \<Rightarrow> (fst r @ ds, Panicked)
      | Exited c \<Rightarrow> r
      | Waiting \<Rightarrow> r)"

text \<open>
  Entering \<open>select\<close> evaluates the channel operands of all cases once, in source order:
  \<open>newHeadChan\<close>, \<open>pendingTxChan\<close>, \<open>headSub.Err()\<close>, \<open>txSub.Err()\<close>, \<open>sigChan\<close>.
  Two of them are calls. The second component tells whether the evaluation panicked.
\<close>

fun select_operands :: "bool \<Rightarrow> sub_id option \<Rightarrow> action list \<times> bool" where
  "select_operands faults txSub =
     ([CallErr (Some HeadSub), CallErr txSub], txSub = None \<and> faults)"

datatype flow = Continue | Stop outcome

text \<open>The bodies of the five cases (lines 94-123).\<close>

fun select_case :: "sub_id option \<Rightarrow> event \<Rightarrow> action list \<times> flow" where
  "select_case txSub (NewHead header) =
     ([FmtPrint (NewBlock (Number header) (Hex (HeaderHash header)) (Time header))], Continue)"
| "select_case txSub (PendingHash txHash) =
     ([FmtPrint (PendingTx (Hex txHash))], Continue)"
| "select_case txSub (HeadSubErr e) =
     ([LogFatalf (HeadSubAborted e)], Stop (Exited 1))"
| "select_case txSub (TxSubErr e) =
     (if txSub \<noteq> None then ([LogFatalf (TxSubAborted e)], Stop (Exited 1))
      else ([], Continue))"
| "select_case txSub Interrupt =
     ([FmtPrint Stopping, Unsubscribe HeadSub]
        @ (if txSub \<noteq> None then [Unsubscribe TxSub] else []),
      Stop Returned)"

text \<open>The \<open>for\<close> loop of lines 91-125, over the events still to come.\<close>

fun loop :: "bool \<Rightarrow> sub_id option \<Rightarrow> event list \<Rightarrow> action list \<times> outcome" where
  "loop faults txSub [] =
     (case select_operands faults txSub of
        (ops, panic) \<Rightarrow> (ops, if panic then Panicked else Waiting))"
| "loop faults txSub (ev # evs) =
     (case select_operands faults txSub of
        (ops, panic) \<Rightarrow>
          if panic then (ops, Panicked)
          else (case select_case txSub ev of
                  (acts, Stop r) \<Rightarrow> (ops @ acts, r)
                | (acts, Continue) \<Rightarrow>
                    (case loop faults txSub evs of
                       (later, r) \<Rightarrow> (ops @ acts @ later, r))))"

text \<open>Lines 70-83: the optional subscription; a failure leaves \<open>txSub\<close> nil.\<close>

definition subscribe_pending :: "world \<Rightarrow> sub_id option \<times> action list" where
  "subscribe_pending w =
     (case tx_sub_err w of
        Some e \<Rightarrow> (None, [SubscribePendingTransactions Background,
                           LogPrintf (PendingSubscribeFailed e)])
      | None \<Rightarrow> (Some TxSub, [SubscribePendingTransactions Background,
                              FmtPrint ListeningPending]))"

text \<open>Lines 52-125: everything after \<open>defer rpcClient.Close()\<close>.\<close>

definition monitor :: "world \<Rightarrow> action list \<times> outcome" where
  "monitor w =
     (case head_sub_err w of
        Some e \<Rightarrow>
          ([FmtPrint Connected, SubscribeNewHead Background,
            LogFatalf (HeadSubscribeFailed e)], Exited 1)
      | None \<Rightarrow>
          (case subscribe_pending w of
             (txSub, sub_acts) \<Rightarrow>
               (case loop (nil_Err_faults w) txSub (incoming w) of
                  (loop_acts, r) \<Rightarrow>
                    ([FmtPrint Connected, SubscribeNewHead Background,
                      FmtPrint ListeningNewHeads]
                       @ sub_acts
                       @ [SignalNotify 1, FmtPrint MonitorStarted]
                       @ loop_acts, r))))"

text \<open>
  \<open>main\<close> (lines 32-126). \<open>cancel\<close> is deferred before the dial and
  \<open>rpcClient.Close\<close> after it, so that \<open>Close\<close> runs first.
\<close>

definition connected :: "world \<Rightarrow> action list \<times> outcome" where
  "connected w =
     (case dial_err w of
        Some e \<Rightarrow> ([LogFatalf (ConnectFailed e)], Exited 1)
      | None \<Rightarrow> run_deferred [Close] (monitor w))"

definition main :: "world \<Rightarrow> action list \<times> outcome" where
  "main w =
     (case run_deferred [Cancel] (connected w) of
        (acts, r) \<Rightarrow>
          ([LogPrintln ConnectStart,
            DialContext (WithTimeout Background CONNECTION_TIMEOUT) NodeWSS] @ acts, r))"

section \<open>Reading a run\<close>

text \<open>The events that carry data, and the two feeds as they come in.\<close>

fun is_data :: "event \<Rightarrow> bool" where
  "is_data (NewHead h) = True"
| "is_data (PendingHash x) = True"
| "is_data (HeadSubErr e) = False"
| "is_data (TxSubErr e) = False"
| "is_data Interrupt = False"

fun block_headers :: "event list \<Rightarrow> Header list" where
  "block_headers [] = []"
| "block_headers (NewHead h # evs) = h # block_headers evs"
| "block_headers (ev # evs) = block_headers evs"

fun pending_hashes :: "event list \<Rightarrow> Hash list" where
  "pending_hashes [] = []"
| "pending_hashes (PendingHash x # evs) = x # pending_hashes evs"
| "pending_hashes (ev # evs) = pending_hashes evs"

text \<open>
  The line the specification asks for per event: height, hash in hexadecimal and timestamp
  of a block; the hash in hexadecimal of a pending transaction.
\<close>

definition block_line :: "Header \<Rightarrow> action" where
  "block_line h = FmtPrint (NewBlock (Number h) (Hex (HeaderHash h)) (Time h))"

definition tx_line :: "Hash \<Rightarrow> action" where
  "tx_line x = FmtPrint (PendingTx (Hex x))"

fun is_block_line :: "action \<Rightarrow> bool" where
  "is_block_line (FmtPrint (NewBlock n h t)) = True"
| "is_block_line a = False"

fun is_tx_line :: "action \<Rightarrow> bool" where
  "is_tx_line (FmtPrint (PendingTx h)) = True"
| "is_tx_line a = False"

fun is_subscribe :: "action \<Rightarrow> bool" where
  "is_subscribe (SubscribeNewHead c) = True"
| "is_subscribe (SubscribePendingTransactions c) = True"
| "is_subscribe a = False"

fun is_unsubscribe :: "action \<Rightarrow> bool" where
  "is_unsubscribe (Unsubscribe s) = True"
| "is_unsubscribe a = False"

text \<open>Giving a resource back: an unsubscription, or closing the connection.\<close>

fun is_release :: "action \<Rightarrow> bool" where
  "is_release (Unsubscribe s) = True"
| "is_release Close = True"
| "is_release a = False"

text \<open>What can be seen from outside: everything but the evaluation of channel operands.\<close>

fun is_visible :: "action \<Rightarrow> bool" where
  "is_visible (CallErr s) = False"
| "is_visible a = True"

text \<open>The deferred calls a run ends with.\<close>

definition unwound :: "outcome \<Rightarrow> action list" where
  "unwound r = (if r = Returned \<or> r = Panicked then [Close, Cancel] else [])"

subsection \<open>Sample worlds\<close>

definition example_header :: Header where
  "example_header = \<lparr>Number = 100, HeaderHash = [0xAA], Time = 1234\<rparr>"

text \<open>A node that serves both subscriptions, and sends nothing yet.\<close>

definition healthy_world :: world where
  "healthy_world =
     \<lparr>dial_err = None, head_sub_err = None, tx_sub_err = None,
      nil_Err_faults = True, incoming = []\<rparr>"

text \<open>A node that rejects the pending-transaction subscription, then sends one header.\<close>

definition degraded_world :: world where
  "degraded_world =
     \<lparr>dial_err = None, head_sub_err = None, tx_sub_err = Some ''unsupported'',
      nil_Err_faults = True, incoming = [NewHead example_header]\<rparr>"

section \<open>The shape of a run\<close>

lemma hex_example: "Hex [0xAA, 0x0F, 0x00] = ''0xaa0f00''"
  by (simp add: Hex_def hex_byte_def hex_digit_def)

lemma main_dial_failed:
  assumes "dial_err w = Some e"
  shows "main w =
           ([LogPrintln ConnectStart,
             DialContext (WithTimeout Background CONNECTION_TIMEOUT) NodeWSS,
             LogFatalf (ConnectFailed e)], Exited 1)"
  using assms by (simp add: main_def connected_def run_deferred_def)

lemma main_head_failed:
  assumes "dial_err w = None" and "head_sub_err w = Some e"
  shows "main w =
           ([LogPrintln ConnectStart,
             DialContext (WithTimeout Background CONNECTION_TIMEOUT) NodeWSS,
             FmtPrint Connected, SubscribeNewHead Background,
             LogFatalf (HeadSubscribeFailed e)], Exited 1)"
  using assms by (simp add: main_def connected_def monitor_def run_deferred_def)

lemma main_running:
  assumes "dial_err w = None" and "head_sub_err w = None"
  shows "main w =
           ([LogPrintln ConnectStart,
             DialContext (WithTimeout Background CONNECTION_TIMEOUT) NodeWSS,
             FmtPrint Connected, SubscribeNewHead Background, FmtPrint ListeningNewHeads]
              @ snd (subscribe_pending w)
              @ [SignalNotify 1, FmtPrint MonitorStarted]
              @ fst (loop (nil_Err_faults w) (fst (subscribe_pending w)) (incoming w))
              @ unwound (snd (loop (nil_Err_faults w) (fst (subscribe_pending w)) (incoming w))),
            snd (loop (nil_Err_faults w) (fst (subscribe_pending w)) (incoming w)))"
proof -
  obtain la r where l: "loop (nil_Err_faults w) (fst (subscribe_pending w)) (incoming w) = (la, r)"
    by (cases "loop (nil_Err_faults w) (fst (subscribe_pending w)) (incoming w)")
  obtain tx sa where s: "subscribe_pending w = (tx, sa)"
    by (cases "subscribe_pending w")
  show ?thesis
    using assms l s
    by (cases r) (simp_all add: main_def connected_def monitor_def run_deferred_def unwound_def)
qed

lemma subscribe_pending_ok:
  assumes "tx_sub_err w = None"
  shows "subscribe_pending w =
           (Some TxSub, [SubscribePendingTransactions Background, FmtPrint ListeningPending])"
  using assms by (simp add: subscribe_pending_def)

lemma subscribe_pending_failed:
  assumes "tx_sub_err w = Some e"
  shows "subscribe_pending w =
           (None, [SubscribePendingTransactions Background,
                   LogPrintf (PendingSubscribeFailed e)])"
  using assms by (simp add: subscribe_pending_def)

section \<open>Facts about the loop\<close>

lemma loop_panics:
  "loop True None evs = ([CallErr (Some HeadSub), CallErr None], Panicked)"
  by (cases evs) simp_all

lemma loop_at_head_error:
  assumes "\<not> (txSub = None \<and> faults)"
  shows "loop faults txSub (HeadSubErr e # rest) =
           ([CallErr (Some HeadSub), CallErr txSub, LogFatalf (HeadSubAborted e)], Exited 1)"
  using assms by auto

lemma loop_at_tx_error:
  "loop faults (Some s) (TxSubErr e # rest) =
     ([CallErr (Some HeadSub), CallErr (Some s), LogFatalf (TxSubAborted e)], Exited 1)"
  by simp

lemma loop_skips_tx_error:
  "loop False None (TxSubErr e # rest) =
     ([CallErr (Some HeadSub), CallErr None] @ fst (loop False None rest),
      snd (loop False None rest))"
  by (simp split: prod.splits)

lemma loop_at_interrupt:
  assumes "\<not> (txSub = None \<and> faults)"
  shows "loop faults txSub (Interrupt # rest) =
           ([CallErr (Some HeadSub), CallErr txSub, FmtPrint Stopping, Unsubscribe HeadSub]
              @ (if txSub \<noteq> None then [Unsubscribe TxSub] else []), Returned)"
  using assms by auto

text \<open>While data events come in and \<open>select\<close> can be entered, the loop goes round.\<close>

lemma loop_data_prefix:
  assumes "\<not> (txSub = None \<and> faults)" and "\<forall>ev\<in>set evs. is_data ev"
  shows "loop faults txSub (evs @ rest) =
           (concat (map (\<lambda>ev. fst (select_operands faults txSub) @ fst (select_case txSub ev)) evs)
              @ fst (loop faults txSub rest),
            snd (loop faults txSub rest))"
  using assms
proof (induction evs)
  case Nil
  then show ?case by simp
next
  case (Cons ev evs)
  then show ?case by (cases ev) (auto split: prod.splits)
qed

lemma data_prefix_no_unsubscribe:
  assumes "\<forall>ev\<in>set evs. is_data ev"
  shows "filter is_unsubscribe
           (concat (map (\<lambda>ev. fst (select_operands faults txSub) @ fst (select_case txSub ev)) evs))
         = []"
  using assms
proof (induction evs)
  case Nil
  then show ?case by simp
next
  case (Cons ev evs)
  then show ?case by (cases ev) auto
qed

lemma loop_lines:
  assumes "txSub \<noteq> None"
  shows "filter is_block_line (fst (loop faults txSub evs)) =
           map block_line (block_headers (takeWhile is_data evs))"
    and "filter is_tx_line (fst (loop faults txSub evs)) =
           map tx_line (pending_hashes (takeWhile is_data evs))"
  using assms
proof (induction evs)
  case Nil
  { case 1 then show ?case by simp }
  { case 2 then show ?case by simp }
next
  case (Cons ev evs)
  { case 1 with Cons show ?case
      by (cases ev) (auto simp: block_line_def split: prod.splits) }
  { case 2 with Cons show ?case
      by (cases ev) (auto simp: tx_line_def split: prod.splits) }
qed

lemma loop_unsubscribes:
  "filter is_unsubscribe (fst (loop faults txSub evs)) =
     (if snd (loop faults txSub evs) = Returned
      then Unsubscribe HeadSub # (if txSub \<noteq> None then [Unsubscribe TxSub] else [])
      else [])"
proof (induction evs)
  case Nil
  then show ?case by simp
next
  case (Cons ev evs)
  then show ?case by (cases ev) (auto split: prod.splits)
qed

lemma loop_releases:
  "filter is_release (fst (loop faults txSub evs)) =
     (if snd (loop faults txSub evs) = Returned
      then Unsubscribe HeadSub # (if txSub \<noteq> None then [Unsubscribe TxSub] else [])
      else [])"
proof (induction evs)
  case Nil
  then show ?case by simp
next
  case (Cons ev evs)
  then show ?case by (cases ev) (auto split: prod.splits)
qed

lemma loop_no_tx_unsubscribe:
  "Unsubscribe TxSub \<notin> set (fst (loop faults None evs))"
proof (induction evs)
  case Nil
  then show ?case by simp
next
  case (Cons ev evs)
  then show ?case by (cases ev) (auto split: prod.splits)
qed

lemma loop_tx_abort_needs_handle:
  "LogFatalf (TxSubAborted e) \<notin> set (fst (loop faults None evs))"
proof (induction evs)
  case Nil
  then show ?case by simp
next
  case (Cons ev evs)
  then show ?case by (cases ev) (auto split: prod.splits)
qed

lemma loop_calls_only:
  "DialContext c u \<notin> set (fst (loop faults txSub evs))"
  "\<not> is_subscribe a \<or> a \<notin> set (fst (loop faults txSub evs))"
proof (induction evs)
  case Nil
  { case 1 show ?case by simp }
  { case 2 show ?case by (cases a) auto }
next
  case (Cons ev evs)
  { case 1 with Cons show ?case by (cases ev) (auto split: prod.splits) }
  { case 2 with Cons show ?case by (cases ev) (auto split: prod.splits) }
qed

lemma loop_no_subscribe:
  assumes "a \<in> set (fst (loop faults txSub evs))"
  shows "\<not> is_subscribe a"
  using assms loop_calls_only(2) [of a faults txSub evs] by blast

lemma loop_waits_iff:
  assumes "txSub \<noteq> None"
  shows "snd (loop faults txSub evs) = Waiting \<longleftrightarrow> (\<forall>ev\<in>set evs. is_data ev)"
  using assms
proof (induction evs)
  case Nil
  then show ?case by simp
next
  case (Cons ev evs)
  then show ?case by (cases ev) (auto split: prod.splits)
qed

section \<open>Startup\<close>

text \<open>
  C6: startup is sequential. When the dial fails the process exits with status 1 and has
  attempted no subscription; when the dial succeeds and the block-header subscription
  fails the process exits with status 1 and has not attempted the pending-transaction
  subscription.
\<close>

theorem startup_failure_is_fatal_in_order:
  "(dial_err w = Some e \<longrightarrow>
      main w = ([LogPrintln ConnectStart,
                 DialContext (WithTimeout Background CONNECTION_TIMEOUT) NodeWSS,
                 LogFatalf (ConnectFailed e)], Exited 1)
      \<and> filter is_subscribe (fst (main w)) = [])
   \<and> (dial_err w = None \<and> head_sub_err w = Some e \<longrightarrow>
      main w = ([LogPrintln ConnectStart,
                 DialContext (WithTimeout Background CONNECTION_TIMEOUT) NodeWSS,
                 FmtPrint Connected, SubscribeNewHead Background,
                 LogFatalf (HeadSubscribeFailed e)], Exited 1)
      \<and> filter is_subscribe (fst (main w)) = [SubscribeNewHead Background])"
  by (simp add: main_dial_failed main_head_failed)

theorem startup_failure_is_fatal_in_order_witness:
  "snd (main (healthy_world\<lparr>dial_err := Some ''refused''\<rparr>)) = Exited 1
   \<and> filter is_subscribe (fst (main (healthy_world\<lparr>dial_err := Some ''refused''\<rparr>))) = []
   \<and> snd (main (healthy_world\<lparr>head_sub_err := Some ''no such method''\<rparr>)) = Exited 1
   \<and> filter is_subscribe (fst (main (healthy_world\<lparr>head_sub_err := Some ''no such method''\<rparr>)))
       = [SubscribeNewHead Background]"
  using startup_failure_is_fatal_in_order
          [of "healthy_world\<lparr>dial_err := Some ''refused''\<rparr>" "''refused''"]
        startup_failure_is_fatal_in_order
          [of "healthy_world\<lparr>head_sub_err := Some ''no such method''\<rparr>" "''no such method''"]
  by (simp add: healthy_world_def)

section \<open>The degraded mode\<close>

text \<open>
  C1: the run of the program against a node that rejects the pending-transaction
  subscription, with the client library's \<open>Err\<close>. The warning is logged and the loop is
  reached, but entering \<open>select\<close> calls \<open>Err()\<close> through the nil \<open>txSub\<close>: the run
  panics there, before the header that is waiting is received or printed.
\<close>

theorem degraded_run_panics:
  "main degraded_world =
     ([LogPrintln ConnectStart,
       DialContext (WithTimeout Background CONNECTION_TIMEOUT) NodeWSS,
       FmtPrint Connected, SubscribeNewHead Background, FmtPrint ListeningNewHeads,
       SubscribePendingTransactions Background,
       LogPrintf (PendingSubscribeFailed ''unsupported''),
       SignalNotify 1, FmtPrint MonitorStarted,
       CallErr (Some HeadSub), CallErr None,
       Close, Cancel], Panicked)"
  by (simp add: main_def connected_def monitor_def subscribe_pending_def run_deferred_def
      degraded_world_def)

section \<open>Printing the events\<close>

text \<open>
  C5: with both subscriptions established, the block lines of a run are exactly the lines
  of the headers received, in the order received, one each, and so are the
  pending-transaction lines for the hashes received. The events received are those that
  come in before the first error or interrupt.
\<close>

theorem events_printed_once_in_order:
  assumes "dial_err w = None" and "head_sub_err w = None" and "tx_sub_err w = None"
  shows "filter is_block_line (fst (main w)) =
           map block_line (block_headers (takeWhile is_data (incoming w)))
         \<and> filter is_tx_line (fst (main w)) =
           map tx_line (pending_hashes (takeWhile is_data (incoming w)))"
  using assms
  by (simp add: main_running subscribe_pending_ok loop_lines unwound_def)

theorem events_printed_once_in_order_witness:
  "filter is_block_line
     (fst (main (healthy_world\<lparr>incoming :=
        [NewHead example_header, PendingHash [0x01], NewHead example_header, Interrupt,
         PendingHash [0x02]]\<rparr>)))
     = [block_line example_header, block_line example_header]
   \<and> filter is_tx_line
     (fst (main (healthy_world\<lparr>incoming :=
        [NewHead example_header, PendingHash [0x01], NewHead example_header, Interrupt,
         PendingHash [0x02]]\<rparr>)))
     = [tx_line [0x01]]"
  using events_printed_once_in_order
          [of "healthy_world\<lparr>incoming :=
                 [NewHead example_header, PendingHash [0x01], NewHead example_header,
                  Interrupt, PendingHash [0x02]]\<rparr>"]
  by (simp add: healthy_world_def)

section \<open>Errors reported by an established subscription\<close>

text \<open>
  C3: when the loop, after any number of data events, receives an error of the
  block-header subscription, the run ends there: with the pending-transaction
  subscription established (or a nil \<open>txSub\<close> whose \<open>Err()\<close> does not fault) the
  process exits with status 1, the fatal log line being its last action, and whatever
  would have come in afterwards plays no part. In every case the run ends abnormally and
  does not go on.
\<close>

theorem head_subscription_error_is_fatal:
  assumes "dial_err w = None" and "head_sub_err w = None"
    and "incoming w = evs @ HeadSubErr e # rest" and "\<forall>ev\<in>set evs. is_data ev"
  shows "(tx_sub_err w = None \<or> \<not> nil_Err_faults w \<longrightarrow>
            snd (main w) = Exited 1
            \<and> last (fst (main w)) = LogFatalf (HeadSubAborted e)
            \<and> main (w\<lparr>incoming := evs @ [HeadSubErr e]\<rparr>) = main w)
         \<and> (snd (main w) = Exited 1 \<or> snd (main w) = Panicked)"
proof (cases "tx_sub_err w")
  case None
  with assms show ?thesis
    by (simp add: main_running subscribe_pending_ok loop_data_prefix unwound_def)
next
  case (Some x)
  with assms show ?thesis
    by (cases "nil_Err_faults w")
       (simp_all add: main_running subscribe_pending_failed loop_data_prefix loop_panics
          unwound_def)
qed

theorem head_subscription_error_is_fatal_witness:
  "snd (main (healthy_world\<lparr>incoming :=
      [NewHead example_header, HeadSubErr ''connection reset'', PendingHash [0x01]]\<rparr>)) = Exited 1
   \<and> last (fst (main (healthy_world\<lparr>incoming :=
      [NewHead example_header, HeadSubErr ''connection reset'', PendingHash [0x01]]\<rparr>)))
       = LogFatalf (HeadSubAborted ''connection reset'')"
  using head_subscription_error_is_fatal
          [of "healthy_world\<lparr>incoming :=
                 [NewHead example_header, HeadSubErr ''connection reset'', PendingHash [0x01]]\<rparr>"
              "[NewHead example_header]" "''connection reset''" "[PendingHash [0x01]]"]
  by (simp add: healthy_world_def)

text \<open>
  C7: when the loop, after any number of data events, receives an error on the
  pending-transaction error channel, the process exits with status 1 if that subscription
  was established; if it was not (and the loop could be entered at all), the run is, to
  the outside, the run without that error. The fatal line for this subscription is
  logged only in runs where the subscription was established.
\<close>

theorem pending_error_fatal_only_when_subscribed:
  assumes "dial_err w = None" and "head_sub_err w = None"
    and "incoming w = evs @ TxSubErr e # rest" and "\<forall>ev\<in>set evs. is_data ev"
  shows "(tx_sub_err w = None \<longrightarrow>
            snd (main w) = Exited 1 \<and> last (fst (main w)) = LogFatalf (TxSubAborted e))
         \<and> (tx_sub_err w \<noteq> None \<and> \<not> nil_Err_faults w \<longrightarrow>
            snd (main w) = snd (main (w\<lparr>incoming := evs @ rest\<rparr>))
            \<and> filter is_visible (fst (main w))
                = filter is_visible (fst (main (w\<lparr>incoming := evs @ rest\<rparr>))))
         \<and> (\<forall>e'. LogFatalf (TxSubAborted e') \<in> set (fst (main w)) \<longrightarrow> tx_sub_err w = None)"
proof (cases "tx_sub_err w")
  case None
  with assms show ?thesis
    by (simp add: main_running subscribe_pending_ok loop_data_prefix unwound_def)
next
  case (Some x)
  have "LogFatalf (TxSubAborted e') \<notin> set (fst (main w))" for e'
    using assms(1,2) Some loop_tx_abort_needs_handle [of e' "nil_Err_faults w" "incoming w"]
    by (simp add: main_running subscribe_pending_failed unwound_def)
  moreover have "snd (main w) = snd (main (w\<lparr>incoming := evs @ rest\<rparr>))
      \<and> filter is_visible (fst (main w))
          = filter is_visible (fst (main (w\<lparr>incoming := evs @ rest\<rparr>)))"
    if "\<not> nil_Err_faults w"
    using assms Some that
    by (simp add: main_running subscribe_pending_failed loop_data_prefix split: prod.splits)
  ultimately show ?thesis using Some by simp
qed

theorem pending_error_fatal_only_when_subscribed_witness:
  "snd (main (healthy_world\<lparr>incoming := [NewHead example_header, TxSubErr ''EOF'']\<rparr>)) = Exited 1
   \<and> snd (main (degraded_world\<lparr>nil_Err_faults := False,
                 incoming := [TxSubErr ''EOF'', NewHead example_header]\<rparr>)) = Waiting
   \<and> filter is_block_line
       (fst (main (degraded_world\<lparr>nil_Err_faults := False,
                 incoming := [TxSubErr ''EOF'', NewHead example_header]\<rparr>)))
       = [block_line example_header]"
  using pending_error_fatal_only_when_subscribed
          [of "healthy_world\<lparr>incoming := [NewHead example_header, TxSubErr ''EOF'']\<rparr>"
              "[NewHead example_header]" "''EOF''" "[]"]
        pending_error_fatal_only_when_subscribed
          [of "degraded_world\<lparr>nil_Err_faults := False,
                 incoming := [TxSubErr ''EOF'', NewHead example_header]\<rparr>"
              "[]" "''EOF''" "[NewHead example_header]"]
  by (simp add: healthy_world_def degraded_world_def main_running subscribe_pending_failed
      unwound_def block_line_def)

section \<open>Interrupt\<close>

text \<open>
  C4: when the loop, after any number of data events, receives the interrupt, \<open>main\<close>
  returns (exit status 0); the run has printed the stop message and has unsubscribed the
  block-header subscription and, if and only if it was established, the
  pending-transaction subscription; the events that were still to come play no part.
\<close>

theorem interrupt_shuts_down:
  assumes "dial_err w = None" and "head_sub_err w = None"
    and "tx_sub_err w = None \<or> \<not> nil_Err_faults w"
    and "incoming w = evs @ Interrupt # rest" and "\<forall>ev\<in>set evs. is_data ev"
  shows "snd (main w) = Returned \<and> exit_code (snd (main w)) = Some 0
         \<and> filter is_unsubscribe (fst (main w)) =
             Unsubscribe HeadSub # (if tx_sub_err w = None then [Unsubscribe TxSub] else [])
         \<and> FmtPrint Stopping \<in> set (fst (main w))
         \<and> main (w\<lparr>incoming := evs @ [Interrupt]\<rparr>) = main w"
proof (cases "tx_sub_err w")
  case None
  with assms show ?thesis
    using data_prefix_no_unsubscribe [of evs True "Some TxSub"]
      data_prefix_no_unsubscribe [of evs False "Some TxSub"]
    by (cases "nil_Err_faults w")
       (simp_all add: main_running subscribe_pending_ok loop_data_prefix unwound_def)
next
  case (Some x)
  with assms show ?thesis
    using data_prefix_no_unsubscribe [of evs False None]
    by (simp add: main_running subscribe_pending_failed loop_data_prefix unwound_def)
qed

theorem interrupt_shuts_down_witness:
  "snd (main (healthy_world\<lparr>incoming :=
      [NewHead example_header, Interrupt, NewHead example_header, PendingHash [0x01]]\<rparr>)) = Returned
   \<and> filter is_unsubscribe (fst (main (healthy_world\<lparr>incoming :=
      [NewHead example_header, Interrupt, NewHead example_header, PendingHash [0x01]]\<rparr>)))
       = [Unsubscribe HeadSub, Unsubscribe TxSub]"
  using interrupt_shuts_down
          [of "healthy_world\<lparr>incoming :=
                 [NewHead example_header, Interrupt, NewHead example_header, PendingHash [0x01]]\<rparr>"
              "[NewHead example_header]" "[NewHead example_header, PendingHash [0x01]]"]
  by (simp add: healthy_world_def)

text \<open>
  C8: a run in which the pending-transaction subscription was not established never calls
  \<open>Unsubscribe\<close> on it; if such a run returns, its only unsubscribe call is the one on
  the block-header subscription.
\<close>

theorem missing_subscription_never_unsubscribed:
  assumes "tx_sub_err w \<noteq> None"
  shows "Unsubscribe TxSub \<notin> set (fst (main w))
         \<and> (snd (main w) = Returned \<longrightarrow>
              filter is_unsubscribe (fst (main w)) = [Unsubscribe HeadSub])"
proof (cases "dial_err w")
  case (Some e)
  then show ?thesis by (simp add: main_dial_failed)
next
  case None
  note dial = this
  show ?thesis
  proof (cases "head_sub_err w")
    case (Some e)
    with dial show ?thesis by (simp add: main_head_failed)
  next
    case None
    from assms obtain x where "tx_sub_err w = Some x" by auto
    with dial None show ?thesis
      by (simp add: main_running subscribe_pending_failed loop_no_tx_unsubscribe
          loop_unsubscribes unwound_def)
  qed
qed

theorem missing_subscription_never_unsubscribed_witness:
  "snd (main (degraded_world\<lparr>nil_Err_faults := False, incoming := [Interrupt]\<rparr>)) = Returned
   \<and> filter is_unsubscribe
       (fst (main (degraded_world\<lparr>nil_Err_faults := False, incoming := [Interrupt]\<rparr>)))
       = [Unsubscribe HeadSub]
   \<and> Unsubscribe TxSub
       \<notin> set (fst (main (degraded_world\<lparr>nil_Err_faults := False, incoming := [Interrupt]\<rparr>)))"
proof -
  have r: "snd (main (degraded_world\<lparr>nil_Err_faults := False, incoming := [Interrupt]\<rparr>)) = Returned"
    by (simp add: main_running subscribe_pending_failed degraded_world_def)
  show ?thesis
    using r missing_subscription_never_unsubscribed
              [of "degraded_world\<lparr>nil_Err_faults := False, incoming := [Interrupt]\<rparr>"]
    by (simp add: degraded_world_def)
qed

section \<open>Releasing the connection and the subscriptions\<close>

text \<open>
  C2, as stated, fails: both subscriptions are established, the block-header subscription
  reports an error, and the process exits with status 1 having made no unsubscribe call
  and without closing the connection (the deferred \<open>Close\<close> does not run on \<open>os.Exit\<close>).
\<close>

theorem fatal_exit_releases_nothing:
  "snd (main (healthy_world\<lparr>incoming := [HeadSubErr ''EOF'']\<rparr>)) = Exited 1
   \<and> filter is_release (fst (main (healthy_world\<lparr>incoming := [HeadSubErr ''EOF'']\<rparr>))) = []"
  by (simp add: main_running subscribe_pending_ok healthy_world_def unwound_def)

text \<open>
  C2, amended: when \<open>main\<close> returns, the run has unsubscribed the block-header
  subscription, then the pending-transaction subscription if it was established, and
  then closed the connection, and has released nothing else; when the process exits
  through \<open>log.Fatalf\<close>, the run has made no unsubscribe call.
\<close>

theorem release_on_return:
  "(snd (main w) = Returned \<longrightarrow>
      filter is_release (fst (main w)) =
        Unsubscribe HeadSub # (if tx_sub_err w = None then [Unsubscribe TxSub] else []) @ [Close])
   \<and> (snd (main w) = Exited c \<longrightarrow> filter is_unsubscribe (fst (main w)) = [])"
proof (cases "dial_err w")
  case (Some e)
  then show ?thesis by (simp add: main_dial_failed)
next
  case None
  note dial = this
  show ?thesis
  proof (cases "head_sub_err w")
    case (Some e)
    with dial show ?thesis by (simp add: main_head_failed)
  next
    case None
    with dial show ?thesis
      by (cases "tx_sub_err w")
         (simp_all add: main_running subscribe_pending_ok subscribe_pending_failed
            loop_releases loop_unsubscribes unwound_def)
  qed
qed

theorem release_on_return_witness:
  "snd (main (healthy_world\<lparr>incoming := [NewHead example_header, Interrupt]\<rparr>)) = Returned
   \<and> filter is_release (fst (main (healthy_world\<lparr>incoming := [NewHead example_header, Interrupt]\<rparr>)))
       = [Unsubscribe HeadSub, Unsubscribe TxSub, Close]
   \<and> snd (main (healthy_world\<lparr>incoming := [TxSubErr ''EOF'']\<rparr>)) = Exited 1
   \<and> filter is_unsubscribe (fst (main (healthy_world\<lparr>incoming := [TxSubErr ''EOF'']\<rparr>))) = []"
proof -
  have r: "snd (main (healthy_world\<lparr>incoming := [NewHead example_header, Interrupt]\<rparr>)) = Returned"
    by (simp add: main_running subscribe_pending_ok healthy_world_def)
  have x: "snd (main (healthy_world\<lparr>incoming := [TxSubErr ''EOF'']\<rparr>)) = Exited 1"
    by (simp add: main_running subscribe_pending_ok healthy_world_def)
  show ?thesis
    using r x
      release_on_return [of "healthy_world\<lparr>incoming := [NewHead example_header, Interrupt]\<rparr>" 0]
      release_on_return [of "healthy_world\<lparr>incoming := [TxSubErr ''EOF'']\<rparr>" 1]
    by (simp add: healthy_world_def)
qed

section \<open>The connection timeout\<close>

text \<open>
  C9: the only context with a deadline is the one given to \<open>rpc.DialContext\<close>, and its
  timeout is 30 seconds; both subscriptions are made with the background context. With
  both subscriptions established the loop is left waiting exactly when everything that
  came in was a block header or a pending transaction: it leaves the wait on an error or
  an interrupt, never by itself.
\<close>

theorem timeout_bounds_dial_only:
  "(\<forall>c u. DialContext c u \<in> set (fst (main w)) \<longrightarrow>
        c = WithTimeout Background (30 * Second) \<and> u = NodeWSS)
   \<and> (\<forall>a\<in>set (fst (main w)). is_subscribe a \<longrightarrow>
        a = SubscribeNewHead Background \<or> a = SubscribePendingTransactions Background)
   \<and> (dial_err w = None \<and> head_sub_err w = None \<and> tx_sub_err w = None \<longrightarrow>
        (snd (main w) = Waiting \<longleftrightarrow> (\<forall>ev\<in>set (incoming w). is_data ev)))"
proof (cases "dial_err w")
  case (Some e)
  then show ?thesis by (simp add: main_dial_failed CONNECTION_TIMEOUT_def)
next
  case None
  note dial = this
  show ?thesis
  proof (cases "head_sub_err w")
    case (Some e)
    with dial show ?thesis by (simp add: main_head_failed CONNECTION_TIMEOUT_def)
  next
    case None
    with dial show ?thesis
      by (cases "tx_sub_err w")
         (auto simp: main_running subscribe_pending_ok subscribe_pending_failed
            loop_calls_only(1) loop_waits_iff unwound_def CONNECTION_TIMEOUT_def
            dest: loop_no_subscribe)
  qed
qed

theorem timeout_bounds_dial_only_witness:
  "snd (main (healthy_world\<lparr>incoming := [NewHead example_header, PendingHash [0x01]]\<rparr>)) = Waiting
   \<and> DialContext (WithTimeout Background 30000000000) ''ws://127.0.0.1:8546''
       \<in> set (fst (main (healthy_world\<lparr>incoming := [NewHead example_header, PendingHash [0x01]]\<rparr>)))"
  using timeout_bounds_dial_only
          [of "healthy_world\<lparr>incoming := [NewHead example_header, PendingHash [0x01]]\<rparr>"]
  by (simp add: healthy_world_def main_running subscribe_pending_ok unwound_def
      CONNECTION_TIMEOUT_def Second_def NodeWSS_def)

end
